theory Spec2Isabelle
  imports Main "HOL-Library.Word"
begin

section \<open>The data of class Simulator (Simulator.h)\<close>

text \<open>
  \<^verbatim>\<open>enum Status { UNKNOWN = -1, STOPPED = 0, RUNNING = 1, STOPPING = 2, STEPPING=3 };\<close>
\<close>

datatype Status = UNKNOWN | STOPPED | RUNNING | STOPPING | STEPPING

fun Status_value :: "Status \<Rightarrow> int" where
  "Status_value UNKNOWN = -1"
| "Status_value STOPPED = 0"
| "Status_value RUNNING = 1"
| "Status_value STOPPING = 2"
| "Status_value STEPPING = 3"

text \<open>
  \<^verbatim>\<open>struct LoadOptions{ std::string filename; std::string robotname; bool wasRunning; };\<close>
\<close>

record LoadOptions =
  filename :: string
  robotname :: string
  wasRunning :: bool

text \<open>
  A \<^verbatim>\<open>double\<close> (and \<^verbatim>\<open>interfaces::sReal\<close>) is kept as the 64 bits it is stored in: the
  operations below copy such fields and never compute with them. A pointer is the address
  it holds.
\<close>

type_synonym double = "64 word"
type_synonym pointer = nat

text \<open>
  The data members of \<^verbatim>\<open>class Simulator\<close>, in the order of their declaration. The types
  \<^verbatim>\<open>interfaces::pluginStruct\<close>, \<^verbatim>\<open>utils::Vector\<close>, \<^verbatim>\<open>cfg_manager::cfgPropertyStruct\<close> and
  \<^verbatim>\<open>data_broker::DataPackage\<close> are declared in other headers; they are the type parameters
  \<open>'plugin\<close>, \<open>'vec\<close>, \<open>'cfg\<close> and \<open>'pkg\<close>. The mutexes, the read-write lock and the wait
  condition are synchronisation objects without data of their own: which thread holds
  \<^verbatim>\<open>stepping_mutex\<close> and which threads are parked on \<^verbatim>\<open>stepping_wc\<close> is scheduling state,
  kept in the record \<open>world\<close> below.
\<close>

record ('plugin, 'vec, 'cfg, 'pkg) Simulator =
  filesToLoad :: "LoadOptions list"
  sim_fault :: bool
  exit_sim :: bool
  allow_draw :: bool
  sync_graphics :: bool
  cameraMenuCheckedIndex :: int
  simulationStatus :: Status
  control :: pointer
  b_SceneChanged :: bool
  reloadSim :: bool
  running :: int
  was_running :: int
  kill_sim :: bool
  show_time :: bool
  sync_time :: double
  my_real_time :: bool
  fast_step :: bool
  erased_active :: bool
  sync_count :: int
  physics_mutex_count :: int
  physics :: pointer
  calc_ms :: double
  load_option :: int
  std_port :: int
  gravity :: 'vec
  allPlugins :: "'plugin list"
  newPlugins :: "'plugin list"
  activePlugins :: "'plugin list"
  guiPlugins :: "'plugin list"
  scenename :: string
  arg_v_scene_name :: "string list"
  arg_actual :: int
  arg_no_gui :: int
  arg_run :: int
  arg_grid :: int
  arg_ortho :: int
  config_dir :: string
  cfgCalcMs :: 'cfg
  cfgFaststep :: 'cfg
  cfgRealtime :: 'cfg
  cfgDebugTime :: 'cfg
  cfgSyncGui :: 'cfg
  cfgDrawContact :: 'cfg
  cfgGX :: 'cfg
  cfgGY :: 'cfg
  cfgGZ :: 'cfg
  cfgWorldErp :: 'cfg
  cfgWorldCfm :: 'cfg
  cfgVisRep :: 'cfg
  cfgSyncTime :: 'cfg
  configPath :: 'cfg
  dbPhysicsUpdateId :: nat
  dbSimTimeId :: nat
  dbPhysicsUpdatePackage :: 'pkg
  dbSimTimePackage :: 'pkg

section \<open>Threads, the stepping mutex and the stepping wait condition\<close>

type_synonym thread = nat

text \<open>
  What the simulation thread has carried out so far, oldest first: the load requests it
  has executed and the physics steps it has made.
\<close>

datatype event = ExecLoad LoadOptions | PhysicsStep

record ('plugin, 'vec, 'cfg, 'pkg) world =
  sim :: "('plugin, 'vec, 'cfg, 'pkg) Simulator"
  stepping_mutex_locked :: bool
  stepping_wc_parked :: "thread list"
  stepping_wc_wakeAll_calls :: nat
  history :: "event list"

text \<open>
  Modelled from the spec: \<^verbatim>\<open>utils::Mutex\<close> and \<^verbatim>\<open>utils::WaitCondition\<close> are declared in
  headers outside this file. \<^verbatim>\<open>lock()\<close> returns once the caller holds the mutex,
  \<^verbatim>\<open>unlock()\<close> releases it, and \<^verbatim>\<open>wakeAll()\<close> wakes every thread parked on the wait
  condition ("wakes any thread parked waiting for a run/step signal"). The field
  \<open>stepping_wc_parked\<close> lists the threads parked on \<^verbatim>\<open>stepping_wc\<close>, and
  \<open>stepping_wc_wakeAll_calls\<close> counts the \<^verbatim>\<open>wakeAll()\<close> calls made on it so far.
\<close>

definition lock_stepping_mutex ::
  "('plugin, 'vec, 'cfg, 'pkg) world \<Rightarrow> ('plugin, 'vec, 'cfg, 'pkg) world" where
  "lock_stepping_mutex w = w\<lparr>stepping_mutex_locked := True\<rparr>"

definition unlock_stepping_mutex ::
  "('plugin, 'vec, 'cfg, 'pkg) world \<Rightarrow> ('plugin, 'vec, 'cfg, 'pkg) world" where
  "unlock_stepping_mutex w = w\<lparr>stepping_mutex_locked := False\<rparr>"

definition wakeAll_stepping_wc ::
  "('plugin, 'vec, 'cfg, 'pkg) world \<Rightarrow> ('plugin, 'vec, 'cfg, 'pkg) world" where
  "wakeAll_stepping_wc w =
     w\<lparr>stepping_wc_parked := [],
       stepping_wc_wakeAll_calls := Suc (stepping_wc_wakeAll_calls w)\<rparr>"

definition set_simulationStatus ::
  "Status \<Rightarrow> ('plugin, 'vec, 'cfg, 'pkg) world \<Rightarrow> ('plugin, 'vec, 'cfg, 'pkg) world" where
  "set_simulationStatus st w = w\<lparr>sim := (sim w)\<lparr>simulationStatus := st\<rparr>\<rparr>"

abbreviation status :: "('plugin, 'vec, 'cfg, 'pkg) world \<Rightarrow> Status" where
  "status w \<equiv> simulationStatus (sim w)"

section \<open>StartSimulation and StopSimulation\<close>

text \<open>
  \<^verbatim>\<open>
  virtual void StartSimulation() {
    stepping_mutex.lock();
    simulationStatus = RUNNING;
    stepping_wc.wakeAll();
    stepping_mutex.unlock();
  }
  \<close>
\<close>

definition StartSimulation ::
  "('plugin, 'vec, 'cfg, 'pkg) world \<Rightarrow> ('plugin, 'vec, 'cfg, 'pkg) world" where
  "StartSimulation w0 =
     (let w1 = lock_stepping_mutex w0;
          w2 = set_simulationStatus RUNNING w1;
          w3 = wakeAll_stepping_wc w2
      in unlock_stepping_mutex w3)"

text \<open>
  \<^verbatim>\<open>
  virtual void StopSimulation() {
    stepping_mutex.lock();
    if(simulationStatus != STOPPED) {
      simulationStatus = STOPPING;
      //stepping_wc.wakeAll();
    }
    stepping_mutex.unlock();
  }
  \<close>
\<close>

definition StopSimulation ::
  "('plugin, 'vec, 'cfg, 'pkg) world \<Rightarrow> ('plugin, 'vec, 'cfg, 'pkg) world" where
  "StopSimulation w0 =
     (let w1 = lock_stepping_mutex w0;
          w2 = (if status w1 \<noteq> STOPPED then set_simulationStatus STOPPING w1 else w1)
      in unlock_stepping_mutex w2)"

text \<open>\<^verbatim>\<open>virtual bool getAllowDraw(void) {return allow_draw;}\<close> and its sibling.\<close>

definition getAllowDraw :: "('plugin, 'vec, 'cfg, 'pkg) world \<Rightarrow> bool" where
  "getAllowDraw w = allow_draw (sim w)"

definition getSyncGraphics :: "('plugin, 'vec, 'cfg, 'pkg) world \<Rightarrow> bool" where
  "getSyncGraphics w = sync_graphics (sim w)"


section \<open>The state machine of the StepController as the specification words it\<close>

text \<open>
  Section 4.1 of the specification lists these transitions: STOPPED to RUNNING on
  StartSimulation; RUNNING to STOPPING on StopSimulation; STOPPING to STOPPED at the next
  tick boundary; STOPPED or STOPPING to STEPPING on singleStep, reverting to STOPPED after
  the one tick; any state to STOPPED on exitMars or a fatal error. \<open>spec_edge a b\<close> holds
  when the state machine has a transition from \<open>a\<close> to \<open>b\<close>, whatever its trigger.
\<close>

fun spec_edge :: "Status \<Rightarrow> Status \<Rightarrow> bool" where
  "spec_edge STOPPED RUNNING = True"
| "spec_edge RUNNING STOPPING = True"
| "spec_edge STOPPED STEPPING = True"
| "spec_edge STOPPING STEPPING = True"
| "spec_edge a STOPPED = True"
| "spec_edge a b = False"

section \<open>Operations that Simulator.h only declares\<close>

text \<open>
  Modelled from the spec: \<^verbatim>\<open>virtual void singleStep(void);\<close> is declared in Simulator.h and
  defined elsewhere. Section 4.1: "STOPPED/STOPPING \<rightarrow> STEPPING on singleStep", "singleStep
  is rejected (no-op) while RUNNING"; section 9: "StartSimulation/singleStep send a run
  token", the wake-up of the parked loop. The state machine has no singleStep transition
  out of STEPPING or UNKNOWN, so the call leaves those states alone.
\<close>

definition singleStep ::
  "('plugin, 'vec, 'cfg, 'pkg) world \<Rightarrow> ('plugin, 'vec, 'cfg, 'pkg) world" where
  "singleStep w0 =
     (let w1 = lock_stepping_mutex w0;
          w2 = (if status w1 = STOPPED \<or> status w1 = STOPPING
                then wakeAll_stepping_wc (set_simulationStatus STEPPING w1) else w1)
      in unlock_stepping_mutex w2)"

text \<open>
  Modelled from the spec: \<^verbatim>\<open>virtual bool hasSimFault() const;\<close> and
  \<^verbatim>\<open>virtual void handleError(interfaces::PhysicsError error);\<close> are declared only.
  Section 7: a PhysicsError "surfaces a persistent simFault flag readable via
  hasSimFault(); the loop continues ticking (it does not auto-stop)". The error kind
  \<^verbatim>\<open>interfaces::PhysicsError\<close> is the type parameter \<open>'err\<close>.
\<close>

definition hasSimFault :: "('plugin, 'vec, 'cfg, 'pkg) world \<Rightarrow> bool" where
  "hasSimFault w = sim_fault (sim w)"

definition handleError ::
  "'err \<Rightarrow> ('plugin, 'vec, 'cfg, 'pkg) world \<Rightarrow> ('plugin, 'vec, 'cfg, 'pkg) world" where
  "handleError e w = w\<lparr>sim := (sim w)\<lparr>sim_fault := True\<rparr>\<rparr>"

text \<open>
  Modelled from the spec: both \<^verbatim>\<open>loadScene\<close> overloads are declared only. Section 4.2,
  enqueueLoad: "callable from any thread, appends under a short-held lock, returns
  immediately". The arguments are those of the overload
  \<^verbatim>\<open>loadScene(filename, wasrunning, robotname, threadsave, blocking)\<close> that make up a
  \<^verbatim>\<open>LoadOptions\<close>.
\<close>

definition loadScene ::
  "string \<Rightarrow> bool \<Rightarrow> string \<Rightarrow> ('plugin, 'vec, 'cfg, 'pkg) world \<Rightarrow> ('plugin, 'vec, 'cfg, 'pkg) world" where
  "loadScene fname wasrunning rname w =
     w\<lparr>sim := (sim w)\<lparr>filesToLoad :=
          filesToLoad (sim w) @ [\<lparr>filename = fname, robotname = rname, wasRunning = wasrunning\<rparr>]\<rparr>\<rparr>"

text \<open>
  Modelled from the spec: \<^verbatim>\<open>loadScene_internal\<close> is declared only, and reading the scene
  file is outside the specification. What remains of one execution is its entry in the
  history and the status it leaves, section 4.2: the request "re-arms RUNNING status
  after the load completes" when its previously-running flag is set, "otherwise the world
  is left STOPPED".
\<close>

definition loadScene_internal ::
  "LoadOptions \<Rightarrow> ('plugin, 'vec, 'cfg, 'pkg) world \<Rightarrow> ('plugin, 'vec, 'cfg, 'pkg) world" where
  "loadScene_internal lo w =
     set_simulationStatus (if wasRunning lo then RUNNING else STOPPED)
       (w\<lparr>history := history w @ [ExecLoad lo]\<rparr>)"

text \<open>
  Modelled from the spec: \<^verbatim>\<open>void processRequests();\<close> is declared only. Section 4.2,
  drainAndExecute: "processes all currently queued requests in FIFO arrival order";
  section 3: a request is "consumed and discarded".
\<close>

fun execute_requests ::
  "LoadOptions list \<Rightarrow> ('plugin, 'vec, 'cfg, 'pkg) world \<Rightarrow> ('plugin, 'vec, 'cfg, 'pkg) world" where
  "execute_requests [] w = w"
| "execute_requests (lo # los) w = execute_requests los (loadScene_internal lo w)"

definition processRequests ::
  "('plugin, 'vec, 'cfg, 'pkg) world \<Rightarrow> ('plugin, 'vec, 'cfg, 'pkg) world" where
  "processRequests w =
     (let w1 = execute_requests (filesToLoad (sim w)) w
      in w1\<lparr>sim := (sim w1)\<lparr>filesToLoad := []\<rparr>\<rparr>)"

text \<open>
  Modelled from the spec: \<^verbatim>\<open>void run();\<close> is declared only. \<open>tick\<close> is one pass of its
  loop. Section 2: the loop "drains RequestQueue, advances the PhysicsInterface by one
  step when RUNNING or once when STEPPING"; section 4.1: "STOPPING \<rightarrow> STOPPED at the next
  tick boundary once the loop observes STOPPING", and a stepping tick "reverts to
  STOPPED"; section 5: "the simulation thread parks (condition-wait, not busy-wait) while
  STOPPED and no singleStep has been requested". The first argument is what the physics
  engine reports for the step of this tick, \<open>None\<close> for success; section 7 routes an
  error to \<open>handleError\<close>. A parked thread does nothing until it is woken.
\<close>

definition simulation_thread :: thread where
  "simulation_thread = 0"

definition park_on_stepping_wc ::
  "thread \<Rightarrow> ('plugin, 'vec, 'cfg, 'pkg) world \<Rightarrow> ('plugin, 'vec, 'cfg, 'pkg) world" where
  "park_on_stepping_wc t w = w\<lparr>stepping_wc_parked := stepping_wc_parked w @ [t]\<rparr>"

definition physics_step ::
  "'err option \<Rightarrow> ('plugin, 'vec, 'cfg, 'pkg) world \<Rightarrow> ('plugin, 'vec, 'cfg, 'pkg) world" where
  "physics_step outcome w =
     (let w1 = w\<lparr>history := history w @ [PhysicsStep]\<rparr>
      in case outcome of None \<Rightarrow> w1 | Some e \<Rightarrow> handleError e w1)"

definition tick ::
  "'err option \<Rightarrow> ('plugin, 'vec, 'cfg, 'pkg) world \<Rightarrow> ('plugin, 'vec, 'cfg, 'pkg) world" where
  "tick outcome w0 =
     (if simulation_thread \<in> set (stepping_wc_parked w0) then w0
      else
        let w1 = processRequests w0;
            w2 = (if status w1 = STOPPING then set_simulationStatus STOPPED w1 else w1)
        in if status w2 = RUNNING \<or> status w2 = STEPPING then
             let w3 = physics_step outcome w2
             in if status w3 = STEPPING then set_simulationStatus STOPPED w3 else w3
           else if status w2 = STOPPED then park_on_stepping_wc simulation_thread w2
           else w2)"


section \<open>Sequences of calls\<close>

datatype call = Call_StartSimulation | Call_StopSimulation | Call_singleStep

fun do_call ::
  "call \<Rightarrow> ('plugin, 'vec, 'cfg, 'pkg) world \<Rightarrow> ('plugin, 'vec, 'cfg, 'pkg) world" where
  "do_call Call_StartSimulation w = StartSimulation w"
| "do_call Call_StopSimulation w = StopSimulation w"
| "do_call Call_singleStep w = singleStep w"

text \<open>
  The status before and after each call of a sequence, with the call that was made.
\<close>

fun transitions ::
  "call list \<Rightarrow> ('plugin, 'vec, 'cfg, 'pkg) world \<Rightarrow> (Status \<times> call \<times> Status) list" where
  "transitions [] w = []"
| "transitions (c # cs) w = (status w, c, status (do_call c w)) # transitions cs (do_call c w)"

text \<open>
  A schedule interleaves calls from other threads, load requests and passes of the
  simulation loop.
\<close>

datatype 'err action =
  Do_call call
| Do_loadScene string bool string
| Do_tick "'err option"

fun do_action ::
  "'err action \<Rightarrow> ('plugin, 'vec, 'cfg, 'pkg) world \<Rightarrow> ('plugin, 'vec, 'cfg, 'pkg) world" where
  "do_action (Do_call c) w = do_call c w"
| "do_action (Do_loadScene fname wasrunning rname) w = loadScene fname wasrunning rname w"
| "do_action (Do_tick outcome) w = tick outcome w"

fun run_schedule ::
  "'err action list \<Rightarrow> ('plugin, 'vec, 'cfg, 'pkg) world \<Rightarrow> ('plugin, 'vec, 'cfg, 'pkg) world" where
  "run_schedule [] w = w"
| "run_schedule (a # as) w = run_schedule as (do_action a w)"

fun enqueued :: "'err action list \<Rightarrow> LoadOptions list" where
  "enqueued [] = []"
| "enqueued (Do_loadScene fname wasrunning rname # as) =
     \<lparr>filename = fname, robotname = rname, wasRunning = wasrunning\<rparr> # enqueued as"
| "enqueued (a # as) = enqueued as"

fun executed_loads :: "event list \<Rightarrow> LoadOptions list" where
  "executed_loads [] = []"
| "executed_loads (ExecLoad lo # es) = lo # executed_loads es"
| "executed_loads (PhysicsStep # es) = executed_loads es"

fun physics_steps :: "event list \<Rightarrow> nat" where
  "physics_steps [] = 0"
| "physics_steps (PhysicsStep # es) = Suc (physics_steps es)"
| "physics_steps (ExecLoad lo # es) = physics_steps es"

section \<open>A concrete Simulator for evaluation\<close>

text \<open>
  A Simulator with empty request queue and plugin lists, and a world around it with a
  chosen status and chosen threads parked on the stepping wait condition.
\<close>

definition sample_Simulator :: "(nat, nat, nat, nat) Simulator" where
  "sample_Simulator =
     \<lparr>filesToLoad = [], sim_fault = False, exit_sim = False, allow_draw = True,
      sync_graphics = False, cameraMenuCheckedIndex = 0, simulationStatus = STOPPED,
      control = 0, b_SceneChanged = False, reloadSim = False, running = 0,
      was_running = 0, kill_sim = False, show_time = False, sync_time = 0,
      my_real_time = False, fast_step = False, erased_active = False, sync_count = 0,
      physics_mutex_count = 0, physics = 0, calc_ms = 0, load_option = 0, std_port = 0,
      gravity = 0, allPlugins = [], newPlugins = [], activePlugins = [], guiPlugins = [],
      scenename = [], arg_v_scene_name = [], arg_actual = 0, arg_no_gui = 0, arg_run = 0,
      arg_grid = 0, arg_ortho = 0, config_dir = ''.'', cfgCalcMs = 0, cfgFaststep = 0,
      cfgRealtime = 0, cfgDebugTime = 0, cfgSyncGui = 0, cfgDrawContact = 0, cfgGX = 0,
      cfgGY = 0, cfgGZ = 0, cfgWorldErp = 0, cfgWorldCfm = 0, cfgVisRep = 0,
      cfgSyncTime = 0, configPath = 0, dbPhysicsUpdateId = 0, dbSimTimeId = 0,
      dbPhysicsUpdatePackage = 0, dbSimTimePackage = 0\<rparr>"

definition sample_world :: "Status \<Rightarrow> thread list \<Rightarrow> (nat, nat, nat, nat) world" where
  "sample_world st ps =
     \<lparr>sim = sample_Simulator\<lparr>simulationStatus := st\<rparr>, stepping_mutex_locked = False,
      stepping_wc_parked = ps, stepping_wc_wakeAll_calls = 0, history = []\<rparr>"

section \<open>Basic facts about the calls\<close>

lemmas call_defs =
  StartSimulation_def StopSimulation_def singleStep_def lock_stepping_mutex_def
  unlock_stepping_mutex_def wakeAll_stepping_wc_def set_simulationStatus_def Let_def

lemma sim_StartSimulation:
  "sim (StartSimulation w) = (sim w)\<lparr>simulationStatus := RUNNING\<rparr>"
  by (simp add: call_defs)

lemma sim_StopSimulation:
  "sim (StopSimulation w) =
     (if status w \<noteq> STOPPED then (sim w)\<lparr>simulationStatus := STOPPING\<rparr> else sim w)"
  by (simp add: call_defs)

lemma status_StartSimulation: "status (StartSimulation w) = RUNNING"
  by (simp add: sim_StartSimulation)

lemma status_StopSimulation:
  "status (StopSimulation w) = (if status w \<noteq> STOPPED then STOPPING else STOPPED)"
  by (simp add: sim_StopSimulation)

lemma status_singleStep:
  "status (singleStep w) =
     (if status w = STOPPED \<or> status w = STOPPING then STEPPING else status w)"
  by (simp add: call_defs)

lemmas sample_defs = sample_world_def sample_Simulator_def

section \<open>StartSimulation from STOPPED\<close>

text \<open>
  Claim C2. When simulationStatus is STOPPED, StartSimulation sets it to RUNNING and wakes
  every thread parked on the stepping wait condition: after the call no thread is parked
  there, and one more \<^verbatim>\<open>wakeAll()\<close> has been issued.
\<close>

theorem StartSimulation_from_STOPPED:
  "status w = STOPPED \<Longrightarrow>
     status (StartSimulation w) = RUNNING
     \<and> stepping_wc_parked (StartSimulation w) = []
     \<and> stepping_wc_wakeAll_calls (StartSimulation w) = Suc (stepping_wc_wakeAll_calls w)"
  by (simp add: call_defs)

theorem StartSimulation_from_STOPPED_witness:
  "status (sample_world STOPPED [simulation_thread, 7]) = STOPPED
   \<and> stepping_wc_parked (sample_world STOPPED [simulation_thread, 7]) = [simulation_thread, 7]
   \<and> status (StartSimulation (sample_world STOPPED [simulation_thread, 7])) = RUNNING
   \<and> stepping_wc_parked (StartSimulation (sample_world STOPPED [simulation_thread, 7])) = []"
proof -
  have h: "status (sample_world STOPPED [simulation_thread, 7]) = STOPPED"
    by (simp add: sample_defs)
  show ?thesis
    using h StartSimulation_from_STOPPED [OF h] by (simp add: sample_defs)
qed

section \<open>StartSimulation from any state\<close>

text \<open>
  Claim C8. StartSimulation sets simulationStatus to RUNNING from every prior state, with
  no condition on it; issued after a StopSimulation, whose stop is then still pending, it
  leaves the status RUNNING.
\<close>

theorem StartSimulation_always_RUNNING:
  "status (StartSimulation w) = RUNNING
   \<and> status (StartSimulation (StopSimulation w)) = RUNNING"
  by (simp add: status_StartSimulation)

theorem StartSimulation_always_RUNNING_witness:
  "status (sample_world STOPPING []) = STOPPING
   \<and> status (StartSimulation (sample_world STOPPING [])) = RUNNING"
  using StartSimulation_always_RUNNING [of "sample_world STOPPING []"]
  by (simp add: sample_defs)

section \<open>StopSimulation from any state\<close>

text \<open>
  Claim C9. StopSimulation sets simulationStatus to STOPPING from every prior state other
  than STOPPED, and it never writes STOPPED: after one call the status is STOPPING, or it
  is STOPPED and was STOPPED before the call.
\<close>

theorem StopSimulation_status:
  "(status w \<noteq> STOPPED \<longrightarrow> status (StopSimulation w) = STOPPING)
   \<and> (status w = STOPPED \<longrightarrow> status (StopSimulation w) = STOPPED)
   \<and> (status (StopSimulation w) = STOPPING
        \<or> (status (StopSimulation w) = STOPPED \<and> status w = STOPPED))"
  by (simp add: status_StopSimulation)

theorem StopSimulation_status_witness:
  "status (sample_world STEPPING []) \<noteq> STOPPED
   \<and> status (StopSimulation (sample_world STEPPING [])) = STOPPING
   \<and> status (sample_world UNKNOWN []) \<noteq> STOPPED
   \<and> status (StopSimulation (sample_world UNKNOWN [])) = STOPPING
   \<and> status (sample_world STOPPED []) = STOPPED
   \<and> status (StopSimulation (sample_world STOPPED [])) = STOPPED"
  using StopSimulation_status [of "sample_world STEPPING []"]
    StopSimulation_status [of "sample_world UNKNOWN []"]
    StopSimulation_status [of "sample_world STOPPED []"]
  by (simp add: sample_defs)

section \<open>The frame of StartSimulation and StopSimulation\<close>

text \<open>
  Claim C10. StartSimulation and StopSimulation modify only the field simulationStatus:
  the Simulator after either call is the Simulator before it with simulationStatus
  replaced, so sim_fault, allow_draw, sync_graphics, filesToLoad, the four plugin lists,
  gravity, calc_ms and every flag are as they were. Neither call executes a load request
  or a physics step, and both return with the stepping mutex released.
\<close>

theorem StartStop_modify_only_simulationStatus:
  "sim (StartSimulation w) = (sim w)\<lparr>simulationStatus := status (StartSimulation w)\<rparr>
   \<and> sim (StopSimulation w) = (sim w)\<lparr>simulationStatus := status (StopSimulation w)\<rparr>
   \<and> history (StartSimulation w) = history w
   \<and> history (StopSimulation w) = history w
   \<and> stepping_mutex_locked (StartSimulation w) = False
   \<and> stepping_mutex_locked (StopSimulation w) = False"
  by (simp add: call_defs)

section \<open>Idempotence of StartSimulation and StopSimulation\<close>

text \<open>
  Claim C3. StartSimulation while RUNNING and StopSimulation while STOPPED leave the state
  of the Simulator, simulationStatus included, and the history as they were; and calling
  either twice in a row has the effect of calling it once: the same Simulator, the same
  parked threads, the same history, the mutex released. StopSimulation twice gives the
  very same world as once. StartSimulation issues its \<^verbatim>\<open>wakeAll()\<close> on every call, so
  only the count of wake-ups tells the second call from the first; it finds nobody
  parked.
\<close>

theorem StartStop_idempotent:
  "(status w = RUNNING \<longrightarrow>
      sim (StartSimulation w) = sim w \<and> history (StartSimulation w) = history w)
   \<and> (status w = STOPPED \<longrightarrow>
      sim (StopSimulation w) = sim w \<and> history (StopSimulation w) = history w
      \<and> stepping_wc_parked (StopSimulation w) = stepping_wc_parked w
      \<and> stepping_wc_wakeAll_calls (StopSimulation w) = stepping_wc_wakeAll_calls w)
   \<and> sim (StartSimulation (StartSimulation w)) = sim (StartSimulation w)
   \<and> stepping_wc_parked (StartSimulation (StartSimulation w))
       = stepping_wc_parked (StartSimulation w)
   \<and> history (StartSimulation (StartSimulation w)) = history (StartSimulation w)
   \<and> stepping_mutex_locked (StartSimulation (StartSimulation w))
       = stepping_mutex_locked (StartSimulation w)
   \<and> StopSimulation (StopSimulation w) = StopSimulation w"
  by (simp add: call_defs)

theorem StartStop_idempotent_witness:
  "status (sample_world RUNNING []) = RUNNING
   \<and> sim (StartSimulation (sample_world RUNNING [])) = sim (sample_world RUNNING [])
   \<and> status (sample_world STOPPED [simulation_thread]) = STOPPED
   \<and> sim (StopSimulation (sample_world STOPPED [simulation_thread]))
       = sim (sample_world STOPPED [simulation_thread])"
  using StartStop_idempotent [of "sample_world RUNNING []"]
    StartStop_idempotent [of "sample_world STOPPED [simulation_thread]"]
  by (simp add: sample_defs)

section \<open>Which calls signal the stepping wait condition\<close>

text \<open>
  Claim C5 says that every status-changing call among StartSimulation, StopSimulation and
  singleStep signals the stepping wait condition. StopSimulation does not: called while
  RUNNING it changes the status to STOPPING and issues no \<^verbatim>\<open>wakeAll()\<close>, the line
  \<^verbatim>\<open>//stepping_wc.wakeAll();\<close> being commented out.
\<close>

theorem StopSimulation_changes_status_without_signal:
  "status (sample_world RUNNING []) = RUNNING
   \<and> status (StopSimulation (sample_world RUNNING [])) = STOPPING
   \<and> stepping_wc_wakeAll_calls (StopSimulation (sample_world RUNNING []))
       = stepping_wc_wakeAll_calls (sample_world RUNNING [])"
  by (simp add: call_defs sample_defs)

text \<open>
  Claim C5, amended. StartSimulation signals the stepping wait condition on every call, and
  singleStep on every call that changes the status; each such signal wakes every parked
  thread. StopSimulation never signals it and leaves parked threads parked. Every call
  that takes the status away from STOPPED, the state in which the simulation thread
  parks, signals the wait condition.
\<close>

theorem wake_on_status_change:
  "stepping_wc_wakeAll_calls (StartSimulation w) = Suc (stepping_wc_wakeAll_calls w)
   \<and> stepping_wc_parked (StartSimulation w) = []
   \<and> stepping_wc_wakeAll_calls (StopSimulation w) = stepping_wc_wakeAll_calls w
   \<and> stepping_wc_parked (StopSimulation w) = stepping_wc_parked w
   \<and> (status (singleStep w) \<noteq> status w \<longrightarrow>
        stepping_wc_wakeAll_calls (singleStep w) = Suc (stepping_wc_wakeAll_calls w)
        \<and> stepping_wc_parked (singleStep w) = [])
   \<and> (status w = STOPPED \<and> status (do_call c w) \<noteq> STOPPED \<longrightarrow>
        stepping_wc_wakeAll_calls (do_call c w) = Suc (stepping_wc_wakeAll_calls w)
        \<and> stepping_wc_parked (do_call c w) = [])"
  by (cases c) (simp_all add: call_defs)

theorem wake_on_status_change_witness:
  "status (singleStep (sample_world STOPPED [simulation_thread]))
     \<noteq> status (sample_world STOPPED [simulation_thread])
   \<and> status (sample_world STOPPED [simulation_thread]) = STOPPED
   \<and> status (do_call Call_singleStep (sample_world STOPPED [simulation_thread])) \<noteq> STOPPED
   \<and> stepping_wc_parked (singleStep (sample_world STOPPED [simulation_thread])) = []
   \<and> stepping_wc_parked (do_call Call_singleStep (sample_world STOPPED [simulation_thread])) = []"
  using wake_on_status_change [of "sample_world STOPPED [simulation_thread]" Call_singleStep]
  by (simp add: sample_defs status_singleStep)

section \<open>Status transitions against the state machine\<close>

text \<open>
  Claim C1 says that each status transition produced by a sequence of StartSimulation,
  StopSimulation and singleStep calls is an edge of the state machine of section 4.1, and
  that no call takes STOPPING to RUNNING. The sequence StartSimulation, StopSimulation,
  StartSimulation from STOPPED ends with the transition from STOPPING to RUNNING, which
  is no edge of that state machine.
\<close>

theorem Start_Stop_Start_leaves_state_machine:
  "transitions [Call_StartSimulation, Call_StopSimulation, Call_StartSimulation]
     (sample_world STOPPED [simulation_thread])
   = [(STOPPED, Call_StartSimulation, RUNNING), (RUNNING, Call_StopSimulation, STOPPING),
      (STOPPING, Call_StartSimulation, RUNNING)]
   \<and> \<not> spec_edge STOPPING RUNNING"
  by (simp add: status_StartSimulation status_StopSimulation sample_defs)

text \<open>
  Claim C1, amended. For every sequence of StartSimulation, StopSimulation and singleStep
  calls, each call either leaves the status as it is, or makes a transition that is an
  edge of the state machine of section 4.1, or is a StartSimulation that takes STOPPING,
  STEPPING or UNKNOWN to RUNNING, or is a StopSimulation that takes STEPPING or UNKNOWN to
  STOPPING; and no call takes the status from STOPPED to STOPPING.
\<close>

theorem transitions_of_calls:
  "(a, c, b) \<in> set (transitions cs w) \<Longrightarrow>
     (a = b \<or> spec_edge a b
      \<or> (c = Call_StartSimulation \<and> b = RUNNING \<and> (a = STOPPING \<or> a = STEPPING \<or> a = UNKNOWN))
      \<or> (c = Call_StopSimulation \<and> b = STOPPING \<and> (a = STEPPING \<or> a = UNKNOWN)))
     \<and> \<not> (a = STOPPED \<and> b = STOPPING)"
proof (induction cs arbitrary: w)
  case Nil
  then show ?case by simp
next
  case (Cons d ds)
  from Cons.prems
  consider (head) "a = status w" "c = d" "b = status (do_call d w)"
    | (tail) "(a, c, b) \<in> set (transitions ds (do_call d w))"
    by auto
  then show ?case
  proof cases
    case head
    then show ?thesis
      by (cases d; cases "status w")
        (simp_all add: status_StartSimulation status_StopSimulation status_singleStep)
  next
    case tail
    then show ?thesis by (rule Cons.IH)
  qed
qed

theorem transitions_of_calls_witness:
  "(STOPPING, Call_StartSimulation, RUNNING)
     \<in> set (transitions [Call_StartSimulation, Call_StopSimulation, Call_StartSimulation]
              (sample_world STOPPED []))
   \<and> \<not> spec_edge STOPPING RUNNING \<and> STOPPING \<noteq> RUNNING"
proof -
  have h: "(STOPPING, Call_StartSimulation, RUNNING)
     \<in> set (transitions [Call_StartSimulation, Call_StopSimulation, Call_StartSimulation]
              (sample_world STOPPED []))"
    by (simp add: status_StartSimulation status_StopSimulation sample_defs)
  show ?thesis using h transitions_of_calls [OF h] by simp
qed

section \<open>Facts about the simulation loop and the request queue\<close>

lemma executed_loads_append:
  "executed_loads (xs @ ys) = executed_loads xs @ executed_loads ys"
  by (induction xs rule: executed_loads.induct) simp_all


lemma executed_loads_map_ExecLoad: "executed_loads (map ExecLoad los) = los"
  by (induction los) simp_all

lemma physics_steps_map_ExecLoad: "physics_steps (map ExecLoad los) = 0"
  by (induction los) simp_all

lemma loadScene_internal_simps:
  "history (loadScene_internal lo w) = history w @ [ExecLoad lo]"
  "filesToLoad (sim (loadScene_internal lo w)) = filesToLoad (sim w)"
  "sim_fault (sim (loadScene_internal lo w)) = sim_fault (sim w)"
  "stepping_wc_parked (loadScene_internal lo w) = stepping_wc_parked w"
  by (simp_all add: loadScene_internal_def set_simulationStatus_def)

lemma execute_requests_simps:
  "history (execute_requests los w) = history w @ map ExecLoad los"
  "filesToLoad (sim (execute_requests los w)) = filesToLoad (sim w)"
  "sim_fault (sim (execute_requests los w)) = sim_fault (sim w)"
  "stepping_wc_parked (execute_requests los w) = stepping_wc_parked w"
  by (induction los arbitrary: w) (simp_all add: loadScene_internal_simps)

lemma processRequests_simps:
  "history (processRequests w) = history w @ map ExecLoad (filesToLoad (sim w))"
  "filesToLoad (sim (processRequests w)) = []"
  "sim_fault (sim (processRequests w)) = sim_fault (sim w)"
  "stepping_wc_parked (processRequests w) = stepping_wc_parked w"
  by (simp_all add: processRequests_def Let_def execute_requests_simps)

lemma processRequests_empty:
  "filesToLoad (sim w) = [] \<Longrightarrow> processRequests w = w"
  by (simp add: processRequests_def)

lemma physics_step_simps:
  "history (physics_step outcome w) = history w @ [PhysicsStep]"
  "filesToLoad (sim (physics_step outcome w)) = filesToLoad (sim w)"
  "status (physics_step outcome w) = status w"
  "sim_fault (sim (physics_step outcome w)) = (sim_fault (sim w) \<or> outcome \<noteq> None)"
  "stepping_wc_parked (physics_step outcome w) = stepping_wc_parked w"
  by (simp_all add: physics_step_def handleError_def Let_def split: option.splits)

lemmas tick_defs = tick_def Let_def set_simulationStatus_def park_on_stepping_wc_def

lemma tick_parked:
  "simulation_thread \<in> set (stepping_wc_parked w) \<Longrightarrow> tick outcome w = w"
  by (simp add: tick_def)

lemma history_tick:
  "simulation_thread \<notin> set (stepping_wc_parked w) \<Longrightarrow>
     history (tick outcome w) = history w @ map ExecLoad (filesToLoad (sim w))
       \<or> history (tick outcome w)
           = history w @ map ExecLoad (filesToLoad (sim w)) @ [PhysicsStep]"
  by (simp add: tick_defs processRequests_simps physics_step_simps)

lemma filesToLoad_tick:
  "simulation_thread \<notin> set (stepping_wc_parked w) \<Longrightarrow> filesToLoad (sim (tick outcome w)) = []"
  by (simp add: tick_defs processRequests_simps physics_step_simps)

lemma sim_fault_tick:
  "sim_fault (sim w) \<Longrightarrow> sim_fault (sim (tick outcome w))"
  by (simp add: tick_defs processRequests_simps physics_step_simps)

lemma history_do_call: "history (do_call c w) = history w"
  by (cases c) (simp_all add: call_defs)

lemma filesToLoad_do_call: "filesToLoad (sim (do_call c w)) = filesToLoad (sim w)"
  by (cases c) (simp_all add: call_defs)

lemma sim_fault_do_call: "sim_fault (sim (do_call c w)) = sim_fault (sim w)"
  by (cases c) (simp_all add: call_defs)

lemma requests_do_action:
  "executed_loads (history (do_action a w)) @ filesToLoad (sim (do_action a w))
     = executed_loads (history w) @ filesToLoad (sim w) @ enqueued [a]"
proof (cases a)
  case (Do_call c)
  then show ?thesis by (simp add: history_do_call filesToLoad_do_call)
next
  case (Do_loadScene fname wasrunning rname)
  then show ?thesis by (simp add: loadScene_def)
next
  case (Do_tick outcome)
  show ?thesis
  proof (cases "simulation_thread \<in> set (stepping_wc_parked w)")
    case True
    with Do_tick show ?thesis by (simp add: tick_parked)
  next
    case False
    from history_tick [OF False, of outcome] filesToLoad_tick [OF False, of outcome] Do_tick
    show ?thesis
      by (auto simp add: executed_loads_append executed_loads_map_ExecLoad)
  qed
qed

lemma enqueued_Cons: "enqueued (a # as) = enqueued [a] @ enqueued as"
  by (cases a) simp_all

lemma requests_run_schedule:
  "executed_loads (history (run_schedule as w)) @ filesToLoad (sim (run_schedule as w))
     = executed_loads (history w) @ filesToLoad (sim w) @ enqueued as"
proof (induction as arbitrary: w)
  case Nil
  show ?case by simp
next
  case (Cons a as)
  have "executed_loads (history (run_schedule (a # as) w))
          @ filesToLoad (sim (run_schedule (a # as) w))
        = executed_loads (history (do_action a w)) @ filesToLoad (sim (do_action a w))
          @ enqueued as"
    by (simp add: Cons.IH)
  also have "\<dots> = executed_loads (history w) @ filesToLoad (sim w) @ enqueued [a] @ enqueued as"
    using requests_do_action [of a w] by (metis append.assoc)
  finally show ?case by (simp add: enqueued_Cons [of a as])
qed

lemma sim_fault_run_schedule:
  "sim_fault (sim w) \<Longrightarrow> sim_fault (sim (run_schedule as w))"
proof (induction as arbitrary: w)
  case Nil
  then show ?case by simp
next
  case (Cons a as)
  have "sim_fault (sim (do_action a w))"
    using Cons.prems
    by (cases a) (simp_all add: sim_fault_do_call sim_fault_tick loadScene_def)
  then show ?case by (simp add: Cons.IH)
qed




section \<open>singleStep\<close>




section \<open>Load requests\<close>

text \<open>
  Claim C6. Over every schedule of calls, loadScene requests and passes of the simulation
  loop, the load requests executed so far followed by those still queued are exactly the
  requests enqueued, in their order of arrival: none is lost, executed twice or taken
  out of turn. A pass of the loop by the simulation thread empties the queue and
  executes the queued requests in a block, in order, after the physics step of the pass
  before and ahead of its own. Neither StartSimulation, StopSimulation and singleStep nor
  loadScene itself executes a request: loadScene appends its request to the queue.
\<close>

theorem load_requests_once_in_order:
  "executed_loads (history (run_schedule as w)) @ filesToLoad (sim (run_schedule as w))
     = executed_loads (history w) @ filesToLoad (sim w) @ enqueued as
   \<and> (simulation_thread \<notin> set (stepping_wc_parked w) \<longrightarrow>
        filesToLoad (sim (tick outcome w)) = []
        \<and> (history (tick outcome w) = history w @ map ExecLoad (filesToLoad (sim w))
            \<or> history (tick outcome w)
                = history w @ map ExecLoad (filesToLoad (sim w)) @ [PhysicsStep]))
   \<and> history (do_call c w) = history w
   \<and> history (loadScene fname wasrunning rname w) = history w
   \<and> filesToLoad (sim (loadScene fname wasrunning rname w))
       = filesToLoad (sim w) @ [\<lparr>filename = fname, robotname = rname, wasRunning = wasrunning\<rparr>]"
  using requests_run_schedule [of as w] history_tick [of w outcome] filesToLoad_tick [of w outcome]
  by (simp add: history_do_call loadScene_def)

theorem load_requests_once_in_order_witness:
  "simulation_thread \<notin> set (stepping_wc_parked (sample_world RUNNING []))
   \<and> history (run_schedule
        [Do_loadScene ''a.scn'' True ''r1'', Do_loadScene ''b.scn'' True ''r2'',
         Do_tick (None :: nat option), Do_tick None] (sample_world RUNNING []))
       = [ExecLoad \<lparr>filename = ''a.scn'', robotname = ''r1'', wasRunning = True\<rparr>,
          ExecLoad \<lparr>filename = ''b.scn'', robotname = ''r2'', wasRunning = True\<rparr>,
          PhysicsStep, PhysicsStep]
   \<and> filesToLoad (sim (run_schedule
        [Do_loadScene ''a.scn'' True ''r1'', Do_loadScene ''b.scn'' True ''r2'',
         Do_tick (None :: nat option), Do_tick None] (sample_world RUNNING []))) = []
   \<and> filesToLoad (sim (tick (None :: nat option) (sample_world RUNNING []))) = []"
  using load_requests_once_in_order [of
      "[Do_loadScene ''a.scn'' True ''r1'', Do_loadScene ''b.scn'' True ''r2'',
         Do_tick (None :: nat option), Do_tick None]" "sample_world RUNNING []"
      "None :: nat option"]
  by (simp add: sample_defs loadScene_def tick_def processRequests_def loadScene_internal_def
      physics_step_def set_simulationStatus_def simulation_thread_def Let_def)

section \<open>Physics errors\<close>

text \<open>
  Claim C7. After handleError, hasSimFault() returns true, and the error itself does not
  change simulationStatus. The flag is persistent: it stays set over every later schedule
  of calls, load requests and passes of the loop. The loop continues ticking: a pass of
  a RUNNING loop whose physics step reports an error sets the flag, leaves the status
  RUNNING, and the next pass makes the next physics step.
\<close>

theorem physics_error_sets_persistent_fault:
  "hasSimFault (handleError e w) \<and> status (handleError e w) = status w
   \<and> hasSimFault (run_schedule as (handleError e w))
   \<and> (status w = RUNNING \<and> simulation_thread \<notin> set (stepping_wc_parked w)
        \<and> filesToLoad (sim w) = [] \<longrightarrow>
        hasSimFault (tick (Some e) w) \<and> status (tick (Some e) w) = RUNNING
        \<and> history (tick (Some e) w) = history w @ [PhysicsStep]
        \<and> history (tick outcome (tick (Some e) w)) = history w @ [PhysicsStep, PhysicsStep])"
proof (intro conjI impI)
  show f: "hasSimFault (handleError e w)"
    by (simp add: hasSimFault_def handleError_def)
  show "status (handleError e w) = status w"
    by (simp add: handleError_def)
  from f show "hasSimFault (run_schedule as (handleError e w))"
    unfolding hasSimFault_def by (rule sim_fault_run_schedule)
next
  assume a: "status w = RUNNING \<and> simulation_thread \<notin> set (stepping_wc_parked w)
    \<and> filesToLoad (sim w) = []"
  then have p: "processRequests w = w" by (simp add: processRequests_empty)
  from a have t: "tick (Some e) w = physics_step (Some e) w"
    by (simp add: tick_def p Let_def physics_step_simps)
  show "hasSimFault (tick (Some e) w)"
    by (simp add: t hasSimFault_def physics_step_simps)
  show "status (tick (Some e) w) = RUNNING"
    using a by (simp add: t physics_step_simps)
  show h: "history (tick (Some e) w) = history w @ [PhysicsStep]"
    by (simp add: t physics_step_simps)
  have p': "processRequests (physics_step (Some e) w) = physics_step (Some e) w"
    using a by (simp add: processRequests_empty physics_step_simps)
  have "tick outcome (physics_step (Some e) w) = physics_step outcome (physics_step (Some e) w)"
    using a by (simp add: tick_def p' Let_def physics_step_simps)
  then show "history (tick outcome (tick (Some e) w)) = history w @ [PhysicsStep, PhysicsStep]"
    by (simp add: t physics_step_simps)
qed

theorem physics_error_sets_persistent_fault_witness:
  "status (sample_world RUNNING []) = RUNNING
   \<and> simulation_thread \<notin> set (stepping_wc_parked (sample_world RUNNING []))
   \<and> filesToLoad (sim (sample_world RUNNING [])) = []
   \<and> \<not> hasSimFault (sample_world RUNNING [])
   \<and> hasSimFault (tick (Some (3::nat)) (sample_world RUNNING []))
   \<and> status (tick (Some (3::nat)) (sample_world RUNNING [])) = RUNNING
   \<and> history (tick (None :: nat option) (tick (Some (3::nat)) (sample_world RUNNING [])))
       = [PhysicsStep, PhysicsStep]"
  using physics_error_sets_persistent_fault [of "3::nat" "sample_world RUNNING []"
      "[] :: nat action list" "None :: nat option"]
  by (simp add: sample_defs hasSimFault_def)

end
